theory Spec2Isabelle
  imports Complex_Main
begin

section \<open>The benchmark comparison script \<^verbatim>\<open>scripts/compare-benchmarks.py\<close>\<close>

text \<open>
  The script loads two JSON documents, extracts one ratio per metric from each,
  computes the change of every metric, prints a table, optionally writes the comparison
  to a file and optionally fails when a ratio dropped by more than a threshold.

  Conventions of the model.
  \<^item> A value that \<^verbatim>\<open>json.load\<close> returns is a \<open>json\<close>; Python's \<^verbatim>\<open>None\<close> is \<open>JNull\<close>.
    A \<^verbatim>\<open>dict\<close> is an association list that holds each key once, in insertion order.
  \<^item> Numbers are exact rationals: every JSON number and every finite \<^verbatim>\<open>float\<close> is one.
    Rounding, overflow, infinities and NaN of IEEE doubles are outside the model.
  \<^item> A document is the \<^verbatim>\<open>dict\<close> that the annotations of the script name: a file whose
    top-level JSON value is not an object is outside the model. What the document holds
    under its keys is any JSON value.
  \<^item> An exception is a value of \<open>py_error\<close>; a function that can raise returns
    \<open>py_error + 'a\<close>, with \<open>Inl\<close> for the exception.
  \<^item> An f-string is kept as the list of its literal parts and replacement fields (value
    and format specification). Turning a field into characters is the work of Python's
    \<^verbatim>\<open>format\<close>, which is not part of the script.
\<close>

subsection \<open>Values, exceptions and formatted text\<close>

datatype json =
    JNull
  | JBool bool
  | JNum rat
  | JStr string
  | JArr "json list"
  | JObj "(string \<times> json) list"

type_synonym dict = "(string \<times> json) list"

datatype py_error =
    AttributeError
  | TypeError
  | ZeroDivisionError
  | FileNotFoundError
  | JSONDecodeError string
  | PermissionError
  | OSError

datatype piece =
    Lit string
  | FNum rat string
  | FStr "piece list" string

type_synonym fstring = "piece list"

text \<open>\<^verbatim>\<open>v.get(k, default)\<close>: only a dict has the method.\<close>

definition dict_get :: "json \<Rightarrow> string \<Rightarrow> json \<Rightarrow> py_error + json" where
  "dict_get v k dflt =
     (case v of
        JObj kvs \<Rightarrow> Inr (case map_of kvs k of Some x \<Rightarrow> x | None \<Rightarrow> dflt)
      | _ \<Rightarrow> Inl AttributeError)"

text \<open>\<^verbatim>\<open>d[k] = v\<close>: an existing key keeps its place, a new key goes last.\<close>

fun dict_set :: "(string \<times> 'v) list \<Rightarrow> string \<Rightarrow> 'v \<Rightarrow> (string \<times> 'v) list" where
  "dict_set [] k v = [(k, v)]"
| "dict_set ((k', v') # kvs) k v =
     (if k' = k then (k, v) # kvs else (k', v') # dict_set kvs k v)"

text \<open>
  The operand that Python's arithmetic sees: \<^verbatim>\<open>bool\<close> is a subclass of \<^verbatim>\<open>int\<close>, every other
  non-number makes \<^verbatim>\<open>-\<close> raise \<^verbatim>\<open>TypeError\<close>.
\<close>

fun num_of :: "json \<Rightarrow> rat option" where
  "num_of (JNum r) = Some r"
| "num_of (JBool b) = Some (if b then 1 else 0)"
| "num_of _ = None"

definition truediv :: "rat \<Rightarrow> rat \<Rightarrow> py_error + rat" where
  "truediv a b = (if b = 0 then Inl ZeroDivisionError else Inr (a / b))"

subsection \<open>\<^verbatim>\<open>get_metric_ratio\<close>\<close>

text \<open>Lines 31 to 38: the standard format, reached when the summary branch did not return.\<close>

definition metrics_branch :: "dict \<Rightarrow> string \<Rightarrow> py_error + json" where
  "metrics_branch data metric =
     (case map_of data ''metrics'' of
        Some ms \<Rightarrow>
          (case dict_get ms metric (JObj []) of
             Inl e \<Rightarrow> Inl e
           | Inr metric_data \<Rightarrow>
               (case metric_data of
                  JObj _ \<Rightarrow> dict_get metric_data ''ratio'' JNull
                | _ \<Rightarrow> Inr metric_data))
      | None \<Rightarrow> Inr JNull)"

definition get_metric_ratio :: "dict \<Rightarrow> string \<Rightarrow> py_error + json" where
  "get_metric_ratio data metric =
     (case map_of data ''summary'' of
        Some s \<Rightarrow>
          if metric = ''EffectDiscipline'' then dict_get s ''disciplineAdvantageRatio'' JNull
          else if metric = ''Safety'' then dict_get s ''safetyAdvantageRatio'' JNull
          else metrics_branch data metric
      | None \<Rightarrow> metrics_branch data metric)"

subsection \<open>\<^verbatim>\<open>compare_results\<close>\<close>

record metric_comparison =
  baseline :: rat
  current :: rat
  change :: rat
  change_pct :: rat
  improved :: bool

type_synonym comparisons = "(string \<times> metric_comparison) list"

text \<open>
  Lines 51 to 60 and 69 to 78: the entry built from two ratios that are not \<^verbatim>\<open>None\<close>.
  The subtraction comes first and raises on a value that is no number.
\<close>

definition compare_entry :: "json \<Rightarrow> json \<Rightarrow> py_error + metric_comparison" where
  "compare_entry baseline_ratio current_ratio =
     (case (num_of current_ratio, num_of baseline_ratio) of
        (Some c, Some b) \<Rightarrow>
          (let chg = c - b in
           case (if b \<noteq> 0
                 then (case truediv chg b of Inl e \<Rightarrow> Inl e | Inr q \<Rightarrow> Inr (q * 100))
                 else Inr 0) of
             Inl e \<Rightarrow> Inl e
           | Inr pct \<Rightarrow>
               Inr \<lparr>baseline = b, current = c, change = chg, change_pct = pct,
                    improved = (chg > 0)\<rparr>)
      | _ \<Rightarrow> Inl TypeError)"

text \<open>
  What \<^verbatim>\<open>for metric_name in baseline['metrics']\<close> runs over. A dict yields its keys, a list
  its elements, a string its characters, anything else is not iterable. An element that is
  no string is \<open>None\<close> here: for it \<^verbatim>\<open>get_metric_ratio(baseline, metric_name)\<close> matches
  neither summary name and calls \<^verbatim>\<open>.get\<close> on the list being iterated, which raises.
\<close>

fun iter_names :: "json \<Rightarrow> py_error + string option list" where
  "iter_names (JObj kvs) = Inr (map (\<lambda>kv. Some (fst kv)) kvs)"
| "iter_names (JArr xs) = Inr (map (\<lambda>x. case x of JStr s \<Rightarrow> Some s | _ \<Rightarrow> None) xs)"
| "iter_names (JStr s) = Inr (map (\<lambda>c. Some [c]) s)"
| "iter_names _ = Inl TypeError"

text \<open>Lines 64 to 78: the loop of the all-metrics mode, with the dict built so far.\<close>

fun compare_loop :: "dict \<Rightarrow> dict \<Rightarrow> string option list \<Rightarrow> comparisons \<Rightarrow> py_error + comparisons" where
  "compare_loop bl cu [] acc = Inr acc"
| "compare_loop bl cu (None # names) acc = Inl AttributeError"
| "compare_loop bl cu (Some metric_name # names) acc =
     (case get_metric_ratio bl metric_name of
        Inl e \<Rightarrow> Inl e
      | Inr baseline_ratio \<Rightarrow>
          (case get_metric_ratio cu metric_name of
             Inl e \<Rightarrow> Inl e
           | Inr current_ratio \<Rightarrow>
               if baseline_ratio \<noteq> JNull \<and> current_ratio \<noteq> JNull
               then (case compare_entry baseline_ratio current_ratio of
                       Inl e \<Rightarrow> Inl e
                     | Inr d \<Rightarrow> compare_loop bl cu names (dict_set acc metric_name d))
               else compare_loop bl cu names acc))"

text \<open>
  \<^verbatim>\<open>if metric:\<close> is false for \<^verbatim>\<open>None\<close> and for the empty string.
\<close>

definition compare_results :: "dict \<Rightarrow> dict \<Rightarrow> string option \<Rightarrow> py_error + comparisons" where
  "compare_results bl cu metric =
     (case (case metric of Some m \<Rightarrow> if m = [] then None else Some m | None \<Rightarrow> None) of
        Some m \<Rightarrow>
          (case get_metric_ratio bl m of
             Inl e \<Rightarrow> Inl e
           | Inr baseline_ratio \<Rightarrow>
               (case get_metric_ratio cu m of
                  Inl e \<Rightarrow> Inl e
                | Inr current_ratio \<Rightarrow>
                    if baseline_ratio \<noteq> JNull \<and> current_ratio \<noteq> JNull
                    then (case compare_entry baseline_ratio current_ratio of
                            Inl e \<Rightarrow> Inl e
                          | Inr d \<Rightarrow> Inr (dict_set [] m d))
                    else Inr []))
      | None \<Rightarrow>
          (case (map_of bl ''metrics'', map_of cu ''metrics'') of
             (Some ms, Some _) \<Rightarrow>
               (case iter_names ms of
                  Inl e \<Rightarrow> Inl e
                | Inr names \<Rightarrow> compare_loop bl cu names [])
           | _ \<Rightarrow> Inr []))"

subsection \<open>\<^verbatim>\<open>check_regression\<close>\<close>

text \<open>Line 109: the description of one regression.\<close>

definition regression_line :: "string \<Rightarrow> metric_comparison \<Rightarrow> fstring" where
  "regression_line metric data =
     [Lit metric, Lit '': '', FNum (baseline data) ''.3f'', Lit '' -> '',
      FNum (current data) ''.3f'', Lit '' ('', FNum (change_pct data) ''.1f'', Lit ''%)'']"

text \<open>Lines 104 to 111: the loop appends to \<^verbatim>\<open>regressions\<close>, which starts empty.\<close>

definition check_regression :: "comparisons \<Rightarrow> rat \<Rightarrow> fstring list" where
  "check_regression cs threshold =
     foldl (\<lambda>regressions (metric, data).
              if change data < 0 \<and> \<bar>change_pct data\<bar> > threshold * 100
              then regressions @ [regression_line metric data]
              else regressions) [] cs"

subsection \<open>\<^verbatim>\<open>print_comparison\<close>\<close>



subsection \<open>\<^verbatim>\<open>main\<close>\<close>









subsection \<open>Documents of the expected shape\<close>

text \<open>
  The shapes that the script is written for: \<^verbatim>\<open>summary\<close> and \<^verbatim>\<open>metrics\<close>, where
  present, are mappings. A document is numeric when, in addition, the two summary ratios
  and every metric (given bare, or under the key \<^verbatim>\<open>ratio\<close> of a mapping) are numbers,
  \<^verbatim>\<open>null\<close> or missing.
\<close>

definition is_mapping :: "json \<Rightarrow> bool" where
  "is_mapping v = (case v of JObj _ \<Rightarrow> True | _ \<Rightarrow> False)"

definition valid_document :: "dict \<Rightarrow> bool" where
  "valid_document d =
     ((case map_of d ''summary'' of Some s \<Rightarrow> is_mapping s | None \<Rightarrow> True) \<and>
      (case map_of d ''metrics'' of Some ms \<Rightarrow> is_mapping ms | None \<Rightarrow> True))"







subsection \<open>Example documents and runs\<close>

text \<open>
  The documents of the end-to-end scenarios: a standard pair whose \<^verbatim>\<open>Throughput\<close> drops from
  2.0 to 1.8, a discipline pair (1.5 and 1.6), a document of both shapes, and a pair with a
  zero baseline. The example world holds the first three under file names; a file of
  any other name does not exist, and only \<^verbatim>\<open>out.json\<close> can be written.
\<close>

definition standard_baseline :: dict where
  "standard_baseline = [(''metrics'', JObj [(''Throughput'', JObj [(''ratio'', JNum 2)])])]"

definition standard_current :: dict where
  "standard_current = [(''metrics'', JObj [(''Throughput'', JObj [(''ratio'', JNum (9 / 5))])])]"

definition discipline_baseline :: dict where
  "discipline_baseline = [(''summary'', JObj [(''disciplineAdvantageRatio'', JNum (3 / 2))])]"

definition discipline_current :: dict where
  "discipline_current = [(''summary'', JObj [(''disciplineAdvantageRatio'', JNum (8 / 5))])]"

definition both_shapes :: dict where
  "both_shapes =
     [(''summary'', JObj [(''disciplineAdvantageRatio'', JNum (3 / 2))]),
      (''metrics'', JObj [(''EffectDiscipline'', JNum 9), (''Throughput'', JNum 2),
                          (''Latency'', JObj [(''ratio'', JNum 3)])])]"

definition zero_baseline :: dict where
  "zero_baseline = [(''metrics'', JObj [(''A'', JNum 0), (''B'', JObj [(''ratio'', JNum 2)])])]"

definition zero_current :: dict where
  "zero_current =
     [(''metrics'', JObj [(''A'', JNum (- 3)), (''B'', JObj [(''ratio'', JNum (9 / 5))])])]"

definition mixed_baseline :: dict where
  "mixed_baseline =
     [(''metrics'', JObj [(''Z'', JNum 1), (''A'', JObj [(''ratio'', JNum 2)]),
                          (''M'', JNull), (''Q'', JNum 4), (''R'', JObj [])])]"

definition mixed_current :: dict where
  "mixed_current =
     [(''metrics'', JObj [(''A'', JNum 3), (''R'', JNum 1), (''Z'', JNum 2), (''M'', JNum 1)])]"

definition sparse_document :: dict where
  "sparse_document = [(''summary'', JObj []), (''metrics'', JObj [(''A'', JObj [])])]"

definition throughput_entry :: metric_comparison where
  "throughput_entry =
     \<lparr>baseline = 2, current = 9 / 5, change = - (1 / 5), change_pct = - 10, improved = False\<rparr>"





subsection \<open>Entries and the ratios they come from\<close>

text \<open>An entry is built from the two ratios extracted for its name, neither of them \<^verbatim>\<open>None\<close>.\<close>

abbreviation from_ratios :: "dict \<Rightarrow> dict \<Rightarrow> string \<times> metric_comparison \<Rightarrow> bool" where
  "from_ratios bl cu e \<equiv>
     (\<exists>vb vc. get_metric_ratio bl (fst e) = Inr vb \<and> get_metric_ratio cu (fst e) = Inr vc \<and>
              vb \<noteq> JNull \<and> vc \<noteq> JNull \<and> compare_entry vb vc = Inr (snd e))"

section \<open>Properties\<close>

subsection \<open>Which exceptions can arise\<close>







subsection \<open>The entry of one metric\<close>

lemma compare_entry_fields:
  assumes "compare_entry vb vc = Inr d"
  shows "num_of vb = Some (baseline d) \<and> num_of vc = Some (current d) \<and>
         change d = current d - baseline d \<and>
         change_pct d = (if baseline d \<noteq> 0 then change d / baseline d * 100 else 0) \<and>
         improved d = (change d > 0)"
  using assms
  by (auto simp: compare_entry_def truediv_def Let_def split: option.splits if_splits sum.splits)


subsection \<open>Every entry of a comparison set comes from the two extracted ratios\<close>

lemma set_dict_set: "set (dict_set acc k v) \<subseteq> insert (k, v) (set acc)"
  by (induction acc k v rule: dict_set.induct) auto


lemma compare_loop_entries:
  "compare_loop bl cu names acc = Inr cs \<Longrightarrow> \<forall>e \<in> set acc. from_ratios bl cu e
   \<Longrightarrow> \<forall>e \<in> set cs. from_ratios bl cu e"
proof (induction bl cu names acc rule: compare_loop.induct)
  case (3 bl cu metric_name names acc)
  from "3.prems"(1) obtain vb vc where
    vb: "get_metric_ratio bl metric_name = Inr vb" and vc: "get_metric_ratio cu metric_name = Inr vc"
    by (auto split: sum.splits)
  show ?case
  proof (cases "vb \<noteq> JNull \<and> vc \<noteq> JNull")
    case True
    with "3.prems"(1) vb vc obtain d where d: "compare_entry vb vc = Inr d"
      and rest: "compare_loop bl cu names (dict_set acc metric_name d) = Inr cs"
      by (auto split: sum.splits)
    have "from_ratios bl cu (metric_name, d)"
      using vb vc d True by auto
    then have "\<forall>e \<in> set (dict_set acc metric_name d). from_ratios bl cu e"
      using "3.prems"(2) set_dict_set[of acc metric_name d] by auto
    from "3.IH"(1)[OF vb vc True d rest this] show ?thesis .
  next
    case False
    with "3.prems"(1) vb vc have rest: "compare_loop bl cu names acc = Inr cs"
      by (auto split: sum.splits)
    from "3.IH"(2)[OF vb vc False rest "3.prems"(2)] show ?thesis .
  qed
qed auto

lemma compare_results_entries:
  assumes "compare_results bl cu metric = Inr cs" and "e \<in> set cs"
  shows "from_ratios bl cu e"
proof (cases "case metric of Some m \<Rightarrow> if m = [] then None else Some m | None \<Rightarrow> None")
  case None
  with assms(1) have "cs = [] \<or> (\<exists>names. compare_loop bl cu names [] = Inr cs)"
    by (auto simp: compare_results_def split: option.splits sum.splits)
  with assms(2) show ?thesis using compare_loop_entries[of bl cu _ "[]" cs] by auto
next
  case (Some m)
  with assms show ?thesis
    by (auto simp: compare_results_def split: sum.splits if_splits)
qed

lemma entry_ratios:
  assumes "compare_results bl cu metric = Inr cs" and "(n, d) \<in> set cs"
  obtains vb vc where "get_metric_ratio bl n = Inr vb" "get_metric_ratio cu n = Inr vc"
    "vb \<noteq> JNull" "vc \<noteq> JNull" "compare_entry vb vc = Inr d"
  using compare_results_entries[OF assms] by auto

subsection \<open>Numeric documents\<close>





subsection \<open>The loop of \<^verbatim>\<open>check_regression\<close>\<close>

lemma check_regression_foldl:
  "foldl (\<lambda>regressions (metric, data).
            if change data < 0 \<and> \<bar>change_pct data\<bar> > threshold * 100
            then regressions @ [regression_line metric data]
            else regressions) acc cs
   = acc @ map (\<lambda>(metric, data). regression_line metric data)
             (filter (\<lambda>(metric, data). change data < 0 \<and> \<bar>change_pct data\<bar> > threshold * 100) cs)"
  by (induction cs arbitrary: acc) (auto split: prod.splits)

subsection \<open>The steps of \<^verbatim>\<open>main\<close>\<close>






subsection \<open>The examples, evaluated\<close>

lemmas example_defs =
  standard_baseline_def standard_current_def discipline_baseline_def discipline_current_def
  both_shapes_def zero_baseline_def zero_current_def mixed_baseline_def mixed_current_def
  sparse_document_def throughput_entry_def

lemmas extraction_defs = get_metric_ratio_def metrics_branch_def dict_get_def

lemmas comparison_defs = compare_results_def compare_entry_def truediv_def





subsection \<open>Outside the expected shapes the script raises\<close>

text \<open>
  The hypotheses of the claims below are needed: \<^verbatim>\<open>.get\<close> on a summary or on metrics that
  are no mapping raises \<^verbatim>\<open>AttributeError\<close>, and the subtraction of two ratios that are no
  numbers raises \<^verbatim>\<open>TypeError\<close>. A list of metrics is iterated like a dict; an empty one
  gives the empty comparison set.
\<close>

lemma non_mapping_summary_raises:
  "get_metric_ratio [(''summary'', JNum 5)] ''EffectDiscipline'' = Inl AttributeError"
  by (simp add: extraction_defs)

lemma non_mapping_metrics_raises:
  "get_metric_ratio [(''metrics'', JArr [JStr ''A''])] ''A'' = Inl AttributeError"
  by (simp add: extraction_defs)

lemma non_number_ratio_raises:
  "compare_results [(''metrics'', JObj [(''A'', JStr ''fast'')])]
     [(''metrics'', JObj [(''A'', JStr ''fast'')])] (Some ''A'') = Inl TypeError"
  by (simp add: extraction_defs comparison_defs)

lemma list_of_metrics_iterated:
  "compare_results [(''metrics'', JArr [])] [(''metrics'', JNum 5)] None = Inr []"
  "compare_results [(''metrics'', JArr [JStr ''A''])] [(''metrics'', JObj [])] None
     = Inl AttributeError"
  "compare_results [(''metrics'', JNum 5)] [(''metrics'', JObj [])] None = Inl TypeError"
  by (simp_all add: extraction_defs comparison_defs)

section \<open>The claims\<close>





text \<open>
  Claim C3. The summary is looked at before the metrics. A document with a
  \<^verbatim>\<open>summary.disciplineAdvantageRatio\<close> yields that value for \<^verbatim>\<open>EffectDiscipline\<close>, whatever
  its \<^verbatim>\<open>metrics\<close> hold. For a document with a summary and a name other than
  \<^verbatim>\<open>EffectDiscipline\<close> and \<^verbatim>\<open>Safety\<close>, the result is that of the metrics lookup (lines
  31 to 38): the bare number, or the \<^verbatim>\<open>ratio\<close> of the mapping, found there.
\<close>

theorem summary_checked_first:
  "(\<forall>s v. map_of d ''summary'' = Some (JObj s) \<longrightarrow> map_of s ''disciplineAdvantageRatio'' = Some v \<longrightarrow>
          get_metric_ratio d ''EffectDiscipline'' = Inr v) \<and>
   (map_of d ''summary'' \<noteq> None \<longrightarrow> m \<noteq> ''EffectDiscipline'' \<longrightarrow> m \<noteq> ''Safety'' \<longrightarrow>
      get_metric_ratio d m = metrics_branch d m \<and>
      (\<forall>ms r. map_of d ''metrics'' = Some (JObj ms) \<longrightarrow> map_of ms m = Some (JNum r) \<longrightarrow>
             get_metric_ratio d m = Inr (JNum r)) \<and>
      (\<forall>ms kvs v. map_of d ''metrics'' = Some (JObj ms) \<longrightarrow> map_of ms m = Some (JObj kvs) \<longrightarrow>
             map_of kvs ''ratio'' = Some v \<longrightarrow> get_metric_ratio d m = Inr v))"
  by (auto simp: get_metric_ratio_def metrics_branch_def dict_get_def)

text \<open>
  The document of both shapes: \<^verbatim>\<open>EffectDiscipline\<close> is 1.5 from the summary, not 9 from the
  metrics; \<^verbatim>\<open>Throughput\<close> (a bare number) and \<^verbatim>\<open>Latency\<close> (a mapping with a ratio) are
  found in the metrics although there is a summary.
\<close>

theorem summary_checked_first_witness:
  "map_of both_shapes ''summary'' = Some (JObj [(''disciplineAdvantageRatio'', JNum (3 / 2))]) \<and>
   map_of both_shapes ''metrics''
     = Some (JObj [(''EffectDiscipline'', JNum 9), (''Throughput'', JNum 2),
                   (''Latency'', JObj [(''ratio'', JNum 3)])]) \<and>
   get_metric_ratio both_shapes ''EffectDiscipline'' = Inr (JNum (3 / 2)) \<and>
   get_metric_ratio both_shapes ''Throughput'' = Inr (JNum 2) \<and>
   get_metric_ratio both_shapes ''Latency'' = Inr (JNum 3)"
proof -
  let ?ms = "[(''EffectDiscipline'', JNum 9), (''Throughput'', JNum 2),
              (''Latency'', JObj [(''ratio'', JNum 3)])]"
  have s: "map_of both_shapes ''summary'' = Some (JObj [(''disciplineAdvantageRatio'', JNum (3 / 2))])"
    and ms: "map_of both_shapes ''metrics'' = Some (JObj ?ms)"
    by (simp_all add: both_shapes_def)
  have r: "map_of [(''disciplineAdvantageRatio'', JNum (3 / 2))] ''disciplineAdvantageRatio''
             = Some (JNum (3 / 2))"
    and t: "map_of ?ms ''Throughput'' = Some (JNum 2)"
    and l: "map_of ?ms ''Latency'' = Some (JObj [(''ratio'', JNum 3)])"
      "map_of [(''ratio'', JNum 3)] ''ratio'' = Some (JNum 3)"
    and ne: "''Throughput'' \<noteq> ''EffectDiscipline''" "''Throughput'' \<noteq> ''Safety''"
      "''Latency'' \<noteq> ''EffectDiscipline''" "''Latency'' \<noteq> ''Safety''"
    by simp_all
  from s have some: "map_of both_shapes ''summary'' \<noteq> None" by simp
  from summary_checked_first[of both_shapes "''Throughput''"] s r
  have 1: "get_metric_ratio both_shapes ''EffectDiscipline'' = Inr (JNum (3 / 2))"
    by blast
  from summary_checked_first[of both_shapes "''Throughput''"] some ne(1,2) ms t
  have 2: "get_metric_ratio both_shapes ''Throughput'' = Inr (JNum 2)"
    by blast
  from summary_checked_first[of both_shapes "''Latency''"] some ne(3,4) ms l
  have 3: "get_metric_ratio both_shapes ''Latency'' = Inr (JNum 3)"
    by blast
  from s ms 1 2 3 show ?thesis by blast
qed



text \<open>
  Claim C5. On a valid document (\<^verbatim>\<open>summary\<close> and \<^verbatim>\<open>metrics\<close>, where present, are mappings)
  \<open>get_metric_ratio\<close> returns for every metric name and never raises. A summary without
  the ratio's key gives \<^verbatim>\<open>None\<close>; where the lookup reaches the metrics (no summary, or a
  name other than the two summary names), so do a document without \<^verbatim>\<open>metrics\<close>, metrics
  without the name, and an entry without \<^verbatim>\<open>ratio\<close>.
\<close>

theorem get_metric_ratio_never_raises:
  assumes "valid_document d"
  shows "(\<exists>v. get_metric_ratio d m = Inr v) \<and>
         (\<forall>s. map_of d ''summary'' = Some (JObj s) \<longrightarrow>
              (map_of s ''disciplineAdvantageRatio'' = None \<longrightarrow>
                 get_metric_ratio d ''EffectDiscipline'' = Inr JNull) \<and>
              (map_of s ''safetyAdvantageRatio'' = None \<longrightarrow>
                 get_metric_ratio d ''Safety'' = Inr JNull)) \<and>
         (map_of d ''summary'' = None \<or> (m \<noteq> ''EffectDiscipline'' \<and> m \<noteq> ''Safety'') \<longrightarrow>
            (map_of d ''metrics'' = None \<longrightarrow> get_metric_ratio d m = Inr JNull) \<and>
            (\<forall>ms. map_of d ''metrics'' = Some (JObj ms) \<longrightarrow> map_of ms m = None \<longrightarrow>
                  get_metric_ratio d m = Inr JNull) \<and>
            (\<forall>ms kvs. map_of d ''metrics'' = Some (JObj ms) \<longrightarrow> map_of ms m = Some (JObj kvs) \<longrightarrow>
                  map_of kvs ''ratio'' = None \<longrightarrow> get_metric_ratio d m = Inr JNull))"
proof (intro conjI)
  show "\<exists>v. get_metric_ratio d m = Inr v"
    using assms
    by (auto simp: valid_document_def is_mapping_def get_metric_ratio_def metrics_branch_def
        dict_get_def split: option.splits json.splits)
qed (auto simp: get_metric_ratio_def metrics_branch_def dict_get_def split: option.splits)

text \<open>
  The sparse document has an empty summary and one metric A without a ratio; the empty
  document has neither key. Every lookup gives \<^verbatim>\<open>None\<close>.
\<close>

theorem get_metric_ratio_never_raises_witness:
  "valid_document sparse_document \<and> valid_document [] \<and>
   get_metric_ratio sparse_document ''EffectDiscipline'' = Inr JNull \<and>
   get_metric_ratio sparse_document ''Safety'' = Inr JNull \<and>
   get_metric_ratio sparse_document ''A'' = Inr JNull \<and>
   get_metric_ratio sparse_document ''B'' = Inr JNull \<and>
   get_metric_ratio [] ''A'' = Inr JNull"
proof -
  have v: "valid_document sparse_document" and v0: "valid_document []"
    by (simp_all add: valid_document_def is_mapping_def sparse_document_def)
  have s: "map_of sparse_document ''summary'' = Some (JObj [])"
    and ms: "map_of sparse_document ''metrics'' = Some (JObj [(''A'', JObj [])])"
    by (simp_all add: sparse_document_def)
  from get_metric_ratio_never_raises[OF v, of "''A''"] s ms
  have "get_metric_ratio sparse_document ''EffectDiscipline'' = Inr JNull"
    "get_metric_ratio sparse_document ''Safety'' = Inr JNull"
    "get_metric_ratio sparse_document ''A'' = Inr JNull"
    by simp_all
  moreover from get_metric_ratio_never_raises[OF v, of "''B''"] ms
  have "get_metric_ratio sparse_document ''B'' = Inr JNull" by simp
  moreover from get_metric_ratio_never_raises[OF v0, of "''A''"]
  have "get_metric_ratio [] ''A'' = Inr JNull" by simp
  ultimately show ?thesis using v v0 by simp
qed








text \<open>
  Claim C9. For a threshold that is not negative, an entry of the comparator with
  baseline 0 has percentage 0 and is never reported: \<open>check_regression\<close> gives the same
  list when every such entry is removed, and gives nothing for such an entry alone.
\<close>

theorem zero_baseline_never_regression:
  assumes "0 \<le> threshold" and "compare_results bl cu metric = Inr cs"
  shows "check_regression cs threshold
           = check_regression (filter (\<lambda>e. baseline (snd e) \<noteq> 0) cs) threshold \<and>
         (\<forall>n d. (n, d) \<in> set cs \<longrightarrow> baseline d = 0 \<longrightarrow>
            change_pct d = 0 \<and> check_regression [(n, d)] threshold = [])"
proof -
  have zero: "change_pct d = 0" if "(n, d) \<in> set cs" "baseline d = 0" for n d
  proof -
    from entry_ratios[OF assms(2) that(1)] obtain vb vc where "compare_entry vb vc = Inr d"
      by blast
    from compare_entry_fields[OF this] that(2) show ?thesis by simp
  qed
  have "filter (\<lambda>(metric, data). change data < 0 \<and> \<bar>change_pct data\<bar> > threshold * 100)
          (filter (\<lambda>e. baseline (snd e) \<noteq> 0) cs)
        = filter (\<lambda>(metric, data). change data < 0 \<and> \<bar>change_pct data\<bar> > threshold * 100) cs"
    unfolding filter_filter using zero assms(1)
    by (intro filter_cong) (auto split: prod.splits)
  then have "check_regression cs threshold
           = check_regression (filter (\<lambda>e. baseline (snd e) \<noteq> 0) cs) threshold"
    unfolding check_regression_def check_regression_foldl by simp
  moreover have "check_regression [(n, d)] threshold = []"
    if "(n, d) \<in> set cs" "baseline d = 0" for n d
    using zero[OF that] assms(1) by (simp add: check_regression_def)
  ultimately show ?thesis using zero by blast
qed

text \<open>
  A fell from 0 to - 3 and B from 2.0 to 1.8: at the threshold 0.05 and at the threshold
  0 only B is reported.
\<close>

theorem zero_baseline_never_regression_witness:
  "compare_results zero_baseline zero_current None
     = Inr [(''A'', \<lparr>baseline = 0, current = - 3, change = - 3, change_pct = 0, improved = False\<rparr>),
            (''B'', throughput_entry)] \<and>
   check_regression
     [(''A'', \<lparr>baseline = 0, current = - 3, change = - 3, change_pct = 0, improved = False\<rparr>),
      (''B'', throughput_entry)] (1 / 20)
     = check_regression [(''B'', throughput_entry)] (1 / 20) \<and>
   check_regression [(''B'', throughput_entry)] (1 / 20) = [regression_line ''B'' throughput_entry] \<and>
   check_regression
     [(''A'', \<lparr>baseline = 0, current = - 3, change = - 3, change_pct = 0, improved = False\<rparr>)] 0 = []"
proof -
  have all: "compare_results zero_baseline zero_current None
     = Inr [(''A'', \<lparr>baseline = 0, current = - 3, change = - 3, change_pct = 0, improved = False\<rparr>),
            (''B'', throughput_entry)]"
    by (simp add: example_defs extraction_defs comparison_defs)
  have t: "(0 :: rat) \<le> 1 / 20" and t0: "(0 :: rat) \<le> 0" by simp_all
  from zero_baseline_never_regression[OF t all]
  have 1: "check_regression
     [(''A'', \<lparr>baseline = 0, current = - 3, change = - 3, change_pct = 0, improved = False\<rparr>),
      (''B'', throughput_entry)] (1 / 20)
     = check_regression [(''B'', throughput_entry)] (1 / 20)"
    by (simp add: throughput_entry_def)
  from zero_baseline_never_regression[OF t0 all]
  have 2: "check_regression
     [(''A'', \<lparr>baseline = 0, current = - 3, change = - 3, change_pct = 0, improved = False\<rparr>)] 0 = []"
    by simp
  have 3: "check_regression [(''B'', throughput_entry)] (1 / 20) = [regression_line ''B'' throughput_entry]"
    by (simp add: check_regression_def throughput_entry_def)
  from all 1 2 3 show ?thesis by simp
qed



end
